theory Spec2Isabelle
  imports Complex_Main
begin

section \<open>Numbers of the script\<close>

text \<open>
  Linear.py computes on numpy float64 arrays and scalars. The model keeps the special
  values of that arithmetic, because the script relies on them: a numpy division by zero
  raises nothing, it yields an infinity or NaN (with a warning only). Finite values are
  exact reals: rounding, overflow and the sign of zero are left out of the model.
\<close>

datatype npfloat = Fin real | PInf | NInf | NaN

fun np_neg :: "npfloat \<Rightarrow> npfloat" where
  "np_neg (Fin a) = Fin (- a)"
| "np_neg PInf = NInf"
| "np_neg NInf = PInf"
| "np_neg NaN = NaN"

fun np_add :: "npfloat \<Rightarrow> npfloat \<Rightarrow> npfloat" where
  "np_add (Fin a) (Fin b) = Fin (a + b)"
| "np_add NaN _ = NaN"
| "np_add _ NaN = NaN"
| "np_add PInf NInf = NaN"
| "np_add NInf PInf = NaN"
| "np_add PInf _ = PInf"
| "np_add _ PInf = PInf"
| "np_add NInf _ = NInf"
| "np_add _ NInf = NInf"

definition np_sub :: "npfloat \<Rightarrow> npfloat \<Rightarrow> npfloat" where
  "np_sub a b = np_add a (np_neg b)"

text \<open>The sign of a product or quotient with an infinite operand.\<close>

definition signed_inf :: "bool \<Rightarrow> npfloat" where
  "signed_inf positive = (if positive then PInf else NInf)"

fun np_mul :: "npfloat \<Rightarrow> npfloat \<Rightarrow> npfloat" where
  "np_mul (Fin a) (Fin b) = Fin (a * b)"
| "np_mul NaN _ = NaN"
| "np_mul _ NaN = NaN"
| "np_mul (Fin a) PInf = (if a = 0 then NaN else signed_inf (0 < a))"
| "np_mul (Fin a) NInf = (if a = 0 then NaN else signed_inf (a < 0))"
| "np_mul PInf (Fin b) = (if b = 0 then NaN else signed_inf (0 < b))"
| "np_mul NInf (Fin b) = (if b = 0 then NaN else signed_inf (b < 0))"
| "np_mul PInf PInf = PInf"
| "np_mul PInf NInf = NInf"
| "np_mul NInf PInf = NInf"
| "np_mul NInf NInf = PInf"

fun np_div :: "npfloat \<Rightarrow> npfloat \<Rightarrow> npfloat" where
  "np_div (Fin a) (Fin b) =
     (if b = 0 then (if a = 0 then NaN else signed_inf (0 < a)) else Fin (a / b))"
| "np_div NaN _ = NaN"
| "np_div _ NaN = NaN"
| "np_div (Fin a) PInf = Fin 0"
| "np_div (Fin a) NInf = Fin 0"
| "np_div PInf (Fin b) = signed_inf (0 \<le> b)"
| "np_div NInf (Fin b) = signed_inf (b < 0)"
| "np_div PInf PInf = NaN"
| "np_div PInf NInf = NaN"
| "np_div NInf PInf = NaN"
| "np_div NInf NInf = NaN"

text \<open>The comparison \<open>a > b\<close>: false as soon as one side is NaN.\<close>

fun np_gt :: "npfloat \<Rightarrow> npfloat \<Rightarrow> bool" where
  "np_gt (Fin a) (Fin b) = (b < a)"
| "np_gt NaN _ = False"
| "np_gt _ NaN = False"
| "np_gt PInf PInf = False"
| "np_gt PInf _ = True"
| "np_gt NInf _ = False"
| "np_gt (Fin a) PInf = False"
| "np_gt (Fin a) NInf = True"

fun np_sqrt :: "npfloat \<Rightarrow> npfloat" where
  "np_sqrt (Fin a) = (if a < 0 then NaN else Fin (sqrt a))"
| "np_sqrt PInf = PInf"
| "np_sqrt NInf = NaN"
| "np_sqrt NaN = NaN"

text \<open>An int64 entry of an array, promoted to float64 by a mixed operation.\<close>

definition flt :: "int \<Rightarrow> npfloat" where
  "flt i = Fin (of_int i)"

text \<open>
  \<open>np.sum\<close> (0.0 on an empty array) and \<open>np.mean\<close> (NaN on an empty array). Both are
  exact here. In float64 the mean of equal values can land one unit in the last place
  off them, so that the fit of a flat series can end a hair above or below its price:
  what is proved about the status of a run is therefore stated on the values the run
  computes, never on the flatness of its input.
\<close>

definition np_sum :: "npfloat list \<Rightarrow> npfloat" where
  "np_sum vs = foldr np_add vs (Fin 0)"

definition np_mean :: "npfloat list \<Rightarrow> npfloat" where
  "np_mean vs = np_div (np_sum vs) (Fin (real (length vs)))"

text \<open>
  \<open>Series.std()\<close> of pandas: \<open>ddof = 1\<close>, \<open>skipna = True\<close>. NaN entries are
  masked out, \<open>count\<close> is the number of the others, and the result is NaN when
  \<open>count \<le> ddof\<close>.
\<close>

definition series_std :: "npfloat list \<Rightarrow> npfloat" where
  "series_std vs =
     (let kept = filter (\<lambda>v. v \<noteq> NaN) vs;
          count = length kept
      in if count \<le> 1 then NaN
         else let avg = np_div (np_sum kept) (Fin (real count));
                  sqr = map (\<lambda>v. np_mul (np_sub avg v) (np_sub avg v)) kept
              in np_sqrt (np_div (np_sum sqr) (Fin (real (count - 1)))))"

section \<open>Errors and positional reads\<close>

datatype py_error = IndexError | ValueError | OverflowError | OutOfBoundsDatetime

text \<open>\<open>.iloc[-1]\<close> and \<open>a[-1]\<close>: the last entry, IndexError on an empty one.\<close>

definition iloc_last :: "'a list \<Rightarrow> py_error + 'a" where
  "iloc_last xs = (case xs of [] \<Rightarrow> Inl IndexError | _ # _ \<Rightarrow> Inr (last xs))"

section \<open>Loading and converting (lines 85 to 98)\<close>

text \<open>
  A date is a day number. \<open>load_gold\<close> gets the downloaded closing prices, one row a
  day of trading, some with a missing date or price, and returns \<open>df.dropna()\<close>.
\<close>

definition load_gold :: "(int option \<times> real option) list \<Rightarrow> (int \<times> real) list" where
  "load_gold downloaded =
     List.map_filter
       (\<lambda>row. case row of (Some ds, Some price_usd) \<Rightarrow> Some (ds, price_usd) | _ \<Rightarrow> None)
       downloaded"

definition price_idr :: "real \<Rightarrow> real \<Rightarrow> npfloat" where
  "price_idr kurs_idr price_usd =
     np_div (np_mul (Fin price_usd) (Fin kurs_idr)) (Fin 31.1035)"

section \<open>The regression (lines 118 to 131)\<close>

definition t_col :: "int list \<Rightarrow> int list" where
  "t_col ds = map (\<lambda>d. d - Min (set ds)) ds"

record fit_result =
  beta_0 :: npfloat
  beta_1 :: npfloat
  trend :: "npfloat list"
  residual :: "npfloat list"
  noise_std :: npfloat

definition centred :: "npfloat list \<Rightarrow> npfloat \<Rightarrow> npfloat list" where
  "centred vs m = map (\<lambda>v. np_sub v m) vs"

definition ols :: "int list \<Rightarrow> npfloat list \<Rightarrow> fit_result" where
  "ols x y =
     (let xf = map flt x;
          x_mean = np_mean xf;
          y_mean = np_mean y;
          b1 = np_div (np_sum (map2 np_mul (centred xf x_mean) (centred y y_mean)))
                      (np_sum (map (\<lambda>d. np_mul d d) (centred xf x_mean)));
          b0 = np_sub y_mean (np_mul b1 x_mean);
          tr = map (\<lambda>v. np_add b0 (np_mul b1 v)) xf;
          res = map2 np_sub y tr
      in \<lparr>beta_0 = b0, beta_1 = b1, trend = tr, residual = res,
          noise_std = series_std res\<rparr>)"

section \<open>The forecast (lines 136 to 147)\<close>

text \<open>\<open>np.arange(start, stop)\<close> on integers: empty when \<open>stop \<le> start\<close>.\<close>

definition arange :: "int \<Rightarrow> int \<Rightarrow> int list" where
  "arange start stop = [start..stop - 1]"

text \<open>
  \<open>pd.date_range(start, periods)\<close>, daily. What pandas answers to a negative number of
  periods depends on its release and is not fixed by the script: it is the parameter
  \<open>neg_periods\<close>.
\<close>

definition date_range :: "py_error + int list \<Rightarrow> int \<Rightarrow> int \<Rightarrow> py_error + int list" where
  "date_range neg_periods start periods =
     (if periods < 0 then neg_periods else Inr [start..start + periods - 1])"

text \<open>\<open>pd.DataFrame\<close> of two columns: ValueError when their lengths differ.\<close>

definition data_frame :: "'a list \<Rightarrow> 'b list \<Rightarrow> py_error + ('a \<times> 'b) list" where
  "data_frame c1 c2 = (if length c1 = length c2 then Inr (zip c1 c2) else Inl ValueError)"

definition future_y :: "npfloat \<Rightarrow> npfloat \<Rightarrow> int list \<Rightarrow> npfloat list" where
  "future_y b0 b1 fx = map (\<lambda>v. np_add b0 (np_mul b1 (flt v))) fx"

definition future_df ::
  "py_error + int list \<Rightarrow> int list \<Rightarrow> int list \<Rightarrow> npfloat \<Rightarrow> npfloat \<Rightarrow> int
    \<Rightarrow> py_error + (int \<times> npfloat) list" where
  "future_df neg_periods ds x b0 b1 pred_days =
     (case iloc_last x of Inl e \<Rightarrow> Inl e
      | Inr x_last \<Rightarrow>
          let future_x = arange (x_last + 1) (x_last + pred_days + 1);
              fy = future_y b0 b1 future_x
          in (case iloc_last ds of Inl e \<Rightarrow> Inl e
              | Inr ds_last \<Rightarrow>
                  (case date_range neg_periods (ds_last + 1) pred_days of Inl e \<Rightarrow> Inl e
                   | Inr future_dates \<Rightarrow> data_frame future_dates fy)))"

section \<open>The summary (lines 149 to 152)\<close>

datatype trend_status = TrenNaik | TrenTurunStabil

record summary =
  future_price :: npfloat
  change_pct :: npfloat
  status :: trend_status

definition summarize :: "npfloat list \<Rightarrow> npfloat \<Rightarrow> py_error + summary" where
  "summarize fy current_idr =
     (case iloc_last fy of Inl e \<Rightarrow> Inl e
      | Inr fp \<Rightarrow>
          let pct = np_mul (np_div (np_sub fp current_idr) current_idr) (Fin 100)
          in Inr \<lparr>future_price = fp, change_pct = pct,
                  status = (if np_gt pct (Fin 0) then TrenNaik else TrenTurunStabil)\<rparr>)"

section \<open>The script, top to bottom\<close>

text \<open>
  The forecast horizon comes from the slider of lines 35 to 38, whose positional
  arguments are its least value, its greatest value and its default.
\<close>

definition pred_days_min :: int where "pred_days_min = 7"
definition pred_days_max :: int where "pred_days_max = 180"
definition pred_days_default :: int where "pred_days_default = 30"

definition slider_value :: "int \<Rightarrow> bool" where
  "slider_value v = (pred_days_min \<le> v \<and> v \<le> pred_days_max)"

record script_output =
  df_ds :: "int list"
  df_price_idr :: "npfloat list"
  df_t :: "int list"
  current_idr :: npfloat
  fit :: fit_result
  forecast :: "(int \<times> npfloat) list"
  summ :: summary

definition run_script ::
  "py_error + int list \<Rightarrow> (int option \<times> real option) list \<Rightarrow> real \<Rightarrow> int
    \<Rightarrow> py_error + script_output" where
  "run_script neg_periods downloaded kurs_idr pred_days =
     (let df = load_gold downloaded;
          ds = map fst df;
          y = map (\<lambda>r. price_idr kurs_idr (snd r)) df
      in (case iloc_last (map snd df) of Inl e \<Rightarrow> Inl e
          | Inr current_usd \<Rightarrow>
          (case iloc_last y of Inl e \<Rightarrow> Inl e
          | Inr cur \<Rightarrow>
              let x = t_col ds;
                  f = ols x y
              in (case future_df neg_periods ds x (beta_0 f) (beta_1 f) pred_days of
                    Inl e \<Rightarrow> Inl e
                  | Inr fdf \<Rightarrow>
                      (case summarize (map snd fdf) cur of Inl e \<Rightarrow> Inl e
                       | Inr s \<Rightarrow>
                           Inr \<lparr>df_ds = ds, df_price_idr = y, df_t = x, current_idr = cur,
                                fit = f, forecast = fdf, summ = s\<rparr>)))))"

section \<open>The closed forms of the specification\<close>

text \<open>
  The specification states the fit over the pairs (time index, value) in exact
  arithmetic. These definitions follow its words; the theorems compare them with what
  \<open>ols\<close> computes.
\<close>

definition xbar :: "(int \<times> real) list \<Rightarrow> real" where
  "xbar pts = sum_list (map (\<lambda>p. real_of_int (fst p)) pts) / real (length pts)"

definition ybar :: "(int \<times> real) list \<Rightarrow> real" where
  "ybar pts = sum_list (map snd pts) / real (length pts)"

definition sxy :: "(int \<times> real) list \<Rightarrow> real" where
  "sxy pts = sum_list (map (\<lambda>p. (real_of_int (fst p) - xbar pts) * (snd p - ybar pts)) pts)"

definition sxx :: "(int \<times> real) list \<Rightarrow> real" where
  "sxx pts = sum_list (map (\<lambda>p. (real_of_int (fst p) - xbar pts)\<^sup>2) pts)"

definition ols_slope :: "(int \<times> real) list \<Rightarrow> real" where
  "ols_slope pts = sxy pts / sxx pts"

definition ols_intercept :: "(int \<times> real) list \<Rightarrow> real" where
  "ols_intercept pts = ybar pts - ols_slope pts * xbar pts"

text \<open>The sum of squared residuals of the line \<open>a + b * x\<close>.\<close>

definition ssr :: "real \<Rightarrow> real \<Rightarrow> (int \<times> real) list \<Rightarrow> real" where
  "ssr a b pts = sum_list (map (\<lambda>p. (snd p - (a + b * real_of_int (fst p)))\<^sup>2) pts)"

definition resid :: "(int \<times> real) list \<Rightarrow> int \<times> real \<Rightarrow> real" where
  "resid pts p = snd p - (ols_intercept pts + ols_slope pts * real_of_int (fst p))"

text \<open>
  The sample standard deviation in the arithmetic of the script: the squared deviations
  from the mean, summed, divided by \<open>n - 1\<close>, under the square root. Nothing is skipped.
\<close>

definition sample_std :: "npfloat list \<Rightarrow> npfloat" where
  "sample_std rs =
     (let m = np_mean rs
      in np_sqrt (np_div (np_sum (map (\<lambda>r. np_mul (np_sub r m) (np_sub r m)) rs))
                         (Fin (real (length rs) - 1))))"

text \<open>Consecutive entries exactly one day apart.\<close>

fun day_apart :: "int list \<Rightarrow> bool" where
  "day_apart (a # b # rest) = (b = a + 1 \<and> day_apart (b # rest))"
| "day_apart _ = True"

text \<open>
  The pairs (time index, value) that the script hands to the fit: lines 98 and 118 on the
  loaded rows.
\<close>

definition points :: "real \<Rightarrow> (int \<times> real) list \<Rightarrow> (int \<times> real) list" where
  "points kurs_idr df =
     map (\<lambda>r. (fst r - Min (set (map fst df)), snd r * kurs_idr / 31.1035)) df"

section \<open>Arithmetic on finite values\<close>

lemma np_sum_Fin: "np_sum (map Fin rs) = Fin (sum_list rs)"
  by (induction rs) (simp_all add: np_sum_def)

lemma np_sum_Fin_map: "np_sum (map (\<lambda>p. Fin (f p)) ps) = Fin (sum_list (map f ps))"
  by (induction ps) (simp_all add: np_sum_def)

lemma np_mean_Fin_map:
  "ps \<noteq> [] \<Longrightarrow> np_mean (map (\<lambda>p. Fin (f p)) ps) = Fin (sum_list (map f ps) / real (length ps))"
  by (simp add: np_mean_def np_sum_Fin_map)

lemma map2_map_same: "map2 f (map g ps) (map h ps) = map (\<lambda>p. f (g p) (h p)) ps"
  by (induction ps) simp_all

lemma sxx_zero_iff:
  "sxx pts = 0 \<longleftrightarrow> (\<forall>p\<in>set pts. real_of_int (fst p) = xbar pts)"
proof -
  have "sxx pts = 0 \<longleftrightarrow> (\<forall>v\<in>set (map (\<lambda>p. (real_of_int (fst p) - xbar pts)\<^sup>2) pts). v = 0)"
    unfolding sxx_def by (rule sum_list_nonneg_eq_0_iff) auto
  then show ?thesis by auto
qed

lemma sxx_nonzero:
  assumes "p \<in> set pts" "q \<in> set pts" "fst p \<noteq> fst q"
  shows "sxx pts \<noteq> 0"
proof
  assume "sxx pts = 0"
  with assms have "real_of_int (fst p) = real_of_int (fst q)"
    by (simp add: sxx_zero_iff)
  with assms(3) show False by simp
qed



lemma length_pos_of_sxx: "sxx pts \<noteq> 0 \<Longrightarrow> pts \<noteq> []"
  by (auto simp: sxx_def)

lemma sum_centred_x: "pts \<noteq> [] \<Longrightarrow> sum_list (map (\<lambda>p. real_of_int (fst p) - xbar pts) pts) = 0"
  by (simp add: sum_list_subtractf sum_list_triv xbar_def)

lemma sum_centred_y: "pts \<noteq> [] \<Longrightarrow> sum_list (map (\<lambda>p. snd p - ybar pts) pts) = 0"
  by (simp add: sum_list_subtractf sum_list_triv ybar_def)

lemma resid_centred:
  "resid pts p = (snd p - ybar pts) - ols_slope pts * (real_of_int (fst p) - xbar pts)"
  by (simp add: resid_def ols_intercept_def algebra_simps)

lemma sum_resid:
  assumes "pts \<noteq> []"
  shows "sum_list (map (resid pts) pts) = 0"
proof -
  have "map (resid pts) pts =
      map (\<lambda>p. (snd p - ybar pts) - ols_slope pts * (real_of_int (fst p) - xbar pts)) pts"
    by (simp add: resid_centred)
  then have "sum_list (map (resid pts) pts) =
      sum_list (map (\<lambda>p. snd p - ybar pts) pts)
      - ols_slope pts * sum_list (map (\<lambda>p. real_of_int (fst p) - xbar pts) pts)"
    by (simp only: sum_list_subtractf sum_list_const_mult)
  with assms show ?thesis
    by (simp add: sum_centred_x sum_centred_y)
qed

lemma sum_resid_centred_x:
  assumes "sxx pts \<noteq> 0"
  shows "sum_list (map (\<lambda>p. resid pts p * (real_of_int (fst p) - xbar pts)) pts) = 0"
proof -
  have "map (\<lambda>p. resid pts p * (real_of_int (fst p) - xbar pts)) pts =
      map (\<lambda>p. (real_of_int (fst p) - xbar pts) * (snd p - ybar pts)
            - ols_slope pts * (real_of_int (fst p) - xbar pts)\<^sup>2) pts"
    by (simp add: resid_centred algebra_simps power2_eq_square)
  then have "sum_list (map (\<lambda>p. resid pts p * (real_of_int (fst p) - xbar pts)) pts) =
      sxy pts - ols_slope pts * sxx pts"
    by (simp only: sum_list_subtractf sum_list_const_mult sxy_def sxx_def)
  with assms show ?thesis
    by (simp add: ols_slope_def)
qed

lemma sum_resid_x:
  assumes "sxx pts \<noteq> 0"
  shows "sum_list (map (\<lambda>p. resid pts p * real_of_int (fst p)) pts) = 0"
proof -
  have ne: "pts \<noteq> []" using assms by (rule length_pos_of_sxx)
  have "map (\<lambda>p. resid pts p * real_of_int (fst p)) pts =
      map (\<lambda>p. resid pts p * (real_of_int (fst p) - xbar pts) + xbar pts * resid pts p) pts"
    by (simp add: algebra_simps)
  then have "sum_list (map (\<lambda>p. resid pts p * real_of_int (fst p)) pts) =
      sum_list (map (\<lambda>p. resid pts p * (real_of_int (fst p) - xbar pts)) pts)
      + xbar pts * sum_list (map (resid pts) pts)"
    by (simp only: sum_list_addf sum_list_const_mult)
  then show ?thesis
    by (simp add: sum_resid_centred_x [OF assms] sum_resid [OF ne])
qed

lemma ssr_split:
  assumes "sxx pts \<noteq> 0"
  shows "ssr a b pts = ssr (ols_intercept pts) (ols_slope pts) pts
     + sum_list (map (\<lambda>p. ((ols_intercept pts - a) + (ols_slope pts - b) * real_of_int (fst p))\<^sup>2) pts)"
proof -
  let ?d = "\<lambda>p. (ols_intercept pts - a) + (ols_slope pts - b) * real_of_int (fst p)"
  have "map (\<lambda>p. (snd p - (a + b * real_of_int (fst p)))\<^sup>2) pts =
      map (\<lambda>p. (resid pts p)\<^sup>2 + (?d p)\<^sup>2
         + (2 * (ols_intercept pts - a) * resid pts p
            + 2 * (ols_slope pts - b) * (resid pts p * real_of_int (fst p)))) pts"
    by (simp add: resid_def power2_eq_square algebra_simps)
  then have "ssr a b pts = sum_list (map (\<lambda>p. (resid pts p)\<^sup>2) pts)
      + sum_list (map (\<lambda>p. (?d p)\<^sup>2) pts)
      + (2 * (ols_intercept pts - a) * sum_list (map (resid pts) pts)
         + 2 * (ols_slope pts - b) * sum_list (map (\<lambda>p. resid pts p * real_of_int (fst p)) pts))"
    unfolding ssr_def by (simp only: sum_list_addf sum_list_const_mult)
  moreover have "sum_list (map (\<lambda>p. (resid pts p)\<^sup>2) pts) = ssr (ols_intercept pts) (ols_slope pts) pts"
    by (simp add: ssr_def resid_def)
  ultimately show ?thesis
    by (simp add: sum_resid [OF length_pos_of_sxx [OF assms]] sum_resid_x [OF assms])
qed

lemma ssr_minimal:
  assumes "sxx pts \<noteq> 0"
  shows "ssr (ols_intercept pts) (ols_slope pts) pts \<le> ssr a b pts"
proof -
  have "0 \<le> sum_list (map (\<lambda>p. ((ols_intercept pts - a) + (ols_slope pts - b) * real_of_int (fst p))\<^sup>2) pts)"
    by (rule sum_list_nonneg) auto
  then show ?thesis
    by (simp add: ssr_split [OF assms, of a b])
qed

lemma np_sub_Fin: "np_sub (Fin a) (Fin b) = Fin (a - b)"
  by (simp add: np_sub_def)

lemma sxy_zero_of_sxx: "sxx pts = 0 \<Longrightarrow> sxy pts = 0"
proof -
  assume "sxx pts = 0"
  then have "\<forall>p\<in>set pts. real_of_int (fst p) = xbar pts"
    by (simp add: sxx_zero_iff)
  then have "map (\<lambda>p. (real_of_int (fst p) - xbar pts) * (snd p - ybar pts)) pts = map (\<lambda>p. 0) pts"
    by simp
  then show ?thesis
    by (simp only: sxy_def sum_list_0)
qed

lemma ols_unfold:
  assumes "pts \<noteq> []"
  shows "ols (map fst pts) (map (\<lambda>p. Fin (snd p)) pts) =
    (let b1 = np_div (Fin (sxy pts)) (Fin (sxx pts));
         b0 = np_sub (Fin (ybar pts)) (np_mul b1 (Fin (xbar pts)));
         res = map (\<lambda>p. np_sub (Fin (snd p)) (np_add b0 (np_mul b1 (Fin (real_of_int (fst p)))))) pts
     in \<lparr>beta_0 = b0, beta_1 = b1,
         trend = map (\<lambda>p. np_add b0 (np_mul b1 (Fin (real_of_int (fst p))))) pts,
         residual = res, noise_std = series_std res\<rparr>)"
  using assms
  by (simp add: ols_def Let_def flt_def centred_def np_mean_Fin_map np_sub_def o_def
      map2_map_same np_sum_Fin_map xbar_def ybar_def sxy_def sxx_def power2_eq_square)

lemma ols_regular:
  assumes "sxx pts \<noteq> 0"
  shows "ols (map fst pts) (map (\<lambda>p. Fin (snd p)) pts) =
     \<lparr>beta_0 = Fin (ols_intercept pts), beta_1 = Fin (ols_slope pts),
      trend = map (\<lambda>p. Fin (ols_intercept pts + ols_slope pts * real_of_int (fst p))) pts,
      residual = map (\<lambda>p. Fin (resid pts p)) pts,
      noise_std = series_std (map (\<lambda>p. Fin (resid pts p)) pts)\<rparr>"
  using assms
  by (simp add: ols_unfold [OF length_pos_of_sxx [OF assms]] Let_def np_sub_Fin
      ols_intercept_def ols_slope_def resid_def)

lemma series_std_NaN: "series_std (map (\<lambda>p. NaN) ps) = NaN"
  by (simp add: series_std_def)

lemma ols_degenerate:
  assumes "pts \<noteq> []" "sxx pts = 0"
  shows "ols (map fst pts) (map (\<lambda>p. Fin (snd p)) pts) =
     \<lparr>beta_0 = NaN, beta_1 = NaN, trend = map (\<lambda>p. NaN) pts,
      residual = map (\<lambda>p. NaN) pts, noise_std = NaN\<rparr>"
  using assms
  by (simp add: ols_unfold Let_def np_sub_def sxy_zero_of_sxx series_std_NaN)

lemma np_sum_NaN: "ps \<noteq> [] \<Longrightarrow> np_sum (map (\<lambda>p. NaN) ps) = NaN"
  by (cases ps) (simp_all add: np_sum_def)

lemma sample_std_NaN: "ps \<noteq> [] \<Longrightarrow> sample_std (map (\<lambda>p. NaN) ps) = NaN"
  by (simp add: sample_std_def Let_def np_sub_def o_def np_sum_NaN)

lemma series_std_Fin_map:
  assumes "2 \<le> length ps"
  shows "series_std (map (\<lambda>p. Fin (g p)) ps) = sample_std (map (\<lambda>p. Fin (g p)) ps)"
proof -
  have ne: "ps \<noteq> []" using assms by auto
  have keep: "filter (\<lambda>v. v \<noteq> NaN) (map (\<lambda>p. Fin (g p)) ps) = map (\<lambda>p. Fin (g p)) ps"
    by (induction ps) simp_all
  have len: "real (length ps - 1) = real (length ps) - 1"
    using assms by (simp add: of_nat_diff)
  have sq: "\<And>a b::real. (a - b) * (a - b) = (b - a) * (b - a)"
    by (simp add: algebra_simps)
  from assms ne show ?thesis
    unfolding series_std_def sample_std_def keep Let_def
    by (simp add: len np_mean_Fin_map [OF ne] np_sum_Fin_map np_sub_Fin o_def sq [of "g _"])
qed

section \<open>A run that raises nothing\<close>

lemma iloc_last_ne: "xs \<noteq> [] \<Longrightarrow> iloc_last xs = Inr (last xs)"
  by (cases xs) (simp_all add: iloc_last_def)

lemma future_df_ok:
  assumes "x \<noteq> []" "ds \<noteq> []" "0 \<le> pd"
  shows "future_df neg ds x b0 b1 pd =
     Inr (zip [last ds + 1..last ds + pd] (future_y b0 b1 [last x + 1..last x + pd]))"
  using assms
  by (simp add: future_df_def iloc_last_ne arange_def date_range_def data_frame_def
      future_y_def Let_def)

lemma summarize_ok:
  assumes "fy \<noteq> []"
  shows "summarize fy cur =
     Inr \<lparr>future_price = last fy,
          change_pct = np_mul (np_div (np_sub (last fy) cur) cur) (Fin 100),
          status = (if np_gt (np_mul (np_div (np_sub (last fy) cur) cur) (Fin 100)) (Fin 0)
                    then TrenNaik else TrenTurunStabil)\<rparr>"
  using assms by (simp add: summarize_def iloc_last_ne Let_def)

lemma run_script_ok:
  assumes "load_gold dl \<noteq> []" "1 \<le> pd"
  shows "run_script neg dl kurs pd =
     (let df = load_gold dl;
          ds = map fst df;
          y = map (\<lambda>r. price_idr kurs (snd r)) df;
          x = t_col ds;
          f = ols x y;
          fy = future_y (beta_0 f) (beta_1 f) [last x + 1..last x + pd];
          pct = np_mul (np_div (np_sub (last fy) (last y)) (last y)) (Fin 100)
      in Inr \<lparr>df_ds = ds, df_price_idr = y, df_t = x, current_idr = last y, fit = f,
              forecast = zip [last ds + 1..last ds + pd] fy,
              summ = \<lparr>future_price = last fy, change_pct = pct,
                       status = (if np_gt pct (Fin 0) then TrenNaik else TrenTurunStabil)\<rparr>\<rparr>)"
proof -
  let ?df = "load_gold dl"
  let ?ds = "map fst ?df"
  let ?y = "map (\<lambda>r. price_idr kurs (snd r)) ?df"
  let ?x = "t_col ?ds"
  let ?f = "ols ?x ?y"
  let ?fy = "future_y (beta_0 ?f) (beta_1 ?f) [last ?x + 1..last ?x + pd]"
  have x: "?x \<noteq> []" and ds: "?ds \<noteq> []" and y: "?y \<noteq> []" and usd: "map snd ?df \<noteq> []"
    using assms(1) by (simp_all add: t_col_def)
  have fy: "?fy \<noteq> []"
    using assms(2) by (simp add: future_y_def)
  have len: "length [last ?ds + 1..last ?ds + pd] = length ?fy"
    by (simp add: future_y_def)
  have snd_zip: "map snd (zip [last ?ds + 1..last ?ds + pd] ?fy) = ?fy"
    using len by (simp only: map_snd_zip)
  have fut: "future_df neg ?ds ?x (beta_0 ?f) (beta_1 ?f) pd = Inr (zip [last ?ds + 1..last ?ds + pd] ?fy)"
    using assms(2) by (simp add: future_df_ok [OF x ds])
  show ?thesis
    unfolding run_script_def Let_def
    by (simp only: iloc_last_ne [OF usd] iloc_last_ne [OF y] fut snd_zip summarize_ok [OF fy]
        sum.case)
qed

lemma ols_points:
  "ols (t_col (map fst df)) (map (\<lambda>r. price_idr kurs (snd r)) df) =
   ols (map fst (points kurs df)) (map (\<lambda>r. Fin (snd r)) (points kurs df))"
  by (simp add: points_def t_col_def price_idr_def o_def)

lemma sxx_const:
  assumes "pts \<noteq> []" and "\<forall>p\<in>set pts. fst p = c"
  shows "sxx pts = 0"
proof -
  have "map (\<lambda>p. real_of_int (fst p)) pts = map (\<lambda>p. real_of_int c) pts"
    using assms(2) by simp
  then have "xbar pts = real_of_int c"
    using assms(1) by (simp only: xbar_def sum_list_triv) simp
  with assms(2) show ?thesis
    by (simp add: sxx_zero_iff)
qed

text \<open>The equations that evaluate a run on concrete rows.\<close>

lemmas script_eval = run_script_def load_gold_def List.map_filter_def price_idr_def
  iloc_last_def t_col_def ols_def centred_def np_mean_def np_sum_def flt_def series_std_def
  np_sub_def future_df_def arange_def date_range_def data_frame_def future_y_def
  summarize_def signed_inf_def Let_def upto.simps

section \<open>Runs that stop\<close>

lemma upto_shift: "[a + 1..a + n] = map (\<lambda>k. a + k) [1..n]"
proof -
  have "length [a + 1..a + n] = length (map (\<lambda>k. a + k) [1..n])"
    by simp
  moreover have "\<forall>i<length [a + 1..a + n]. [a + 1..a + n] ! i = map (\<lambda>k. a + k) [1..n] ! i"
    by (auto simp: nth_upto)
  ultimately show ?thesis
    by (simp only: list_eq_iff_nth_eq)
qed

lemma run_script_empty: "load_gold dl = [] \<Longrightarrow> run_script neg dl kurs pd = Inl IndexError"
  by (simp add: run_script_def iloc_last_def Let_def)

lemma summarize_empty: "summarize [] cur = Inl IndexError"
  by (simp add: summarize_def iloc_last_def)

lemma future_df_nonpos:
  assumes "pd < 1"
  shows "future_df neg ds x b0 b1 pd = Inr fdf \<Longrightarrow> fdf = []"
  using assms
  by (auto simp: future_df_def arange_def future_y_def data_frame_def Let_def
      split: sum.splits if_splits)

lemma run_script_nonpos:
  assumes "pd < 1"
  shows "\<exists>e. run_script neg dl kurs pd = Inl e"
proof (cases "future_df neg (map fst (load_gold dl)) (t_col (map fst (load_gold dl)))
    (beta_0 (ols (t_col (map fst (load_gold dl))) (map (\<lambda>r. price_idr kurs (snd r)) (load_gold dl))))
    (beta_1 (ols (t_col (map fst (load_gold dl))) (map (\<lambda>r. price_idr kurs (snd r)) (load_gold dl))))
    pd")
  case (Inl e)
  then show ?thesis
    by (simp add: run_script_def Let_def split: sum.splits)
next
  case (Inr fdf)
  then have "fdf = []"
    using assms by (rule future_df_nonpos [rotated])
  with Inr show ?thesis
    by (simp add: run_script_def Let_def summarize_empty split: sum.splits)
qed

lemma run_script_InrD:
  assumes "run_script neg dl kurs pd = Inr out"
  shows "load_gold dl \<noteq> [] \<and> 1 \<le> pd"
proof -
  have "load_gold dl \<noteq> []"
    using assms run_script_empty [of dl neg kurs pd] by auto
  moreover have "1 \<le> pd"
    using assms run_script_nonpos [of pd neg dl kurs] by (cases "pd < 1") auto
  ultimately show ?thesis
    by simp
qed

section \<open>Dates in order\<close>

lemma sorted_Min_hd:
  assumes "sorted ds" and "ds \<noteq> []"
  shows "Min (set ds) = hd ds"
proof (cases ds)
  case Nil
  with assms(2) show ?thesis by simp
next
  case (Cons d rest)
  with assms(1) have "\<forall>e\<in>set rest. d \<le> e"
    by simp
  then have "Min (insert d (set rest)) = d"
    by (intro Min_eqI) auto
  with Cons show ?thesis
    by simp
qed

section \<open>The fit is the least-squares line\<close>

text \<open>
  C1. On a series with at least two distinct time indices, \<open>ols\<close> returns the slope
  \<open>\<Sum>((x - xMean)(y - yMean)) / \<Sum>((x - xMean)\<^sup>2)\<close> and the intercept
  \<open>yMean - slope * xMean\<close>, and no line has a smaller sum of squared residuals.
\<close>

theorem ols_least_squares:
  assumes "p \<in> set pts" and "q \<in> set pts" and "fst p \<noteq> fst q"
  shows "beta_1 (ols (map fst pts) (map (\<lambda>r. Fin (snd r)) pts)) = Fin (sxy pts / sxx pts)
    \<and> beta_0 (ols (map fst pts) (map (\<lambda>r. Fin (snd r)) pts))
        = Fin (ybar pts - sxy pts / sxx pts * xbar pts)
    \<and> (\<forall>a b. ssr (ybar pts - sxy pts / sxx pts * xbar pts) (sxy pts / sxx pts) pts
          \<le> ssr a b pts)"
proof -
  have nz: "sxx pts \<noteq> 0"
    using assms by (rule sxx_nonzero)
  have "\<forall>a b. ssr (ols_intercept pts) (ols_slope pts) pts \<le> ssr a b pts"
    using ssr_minimal [OF nz] by blast
  then show ?thesis
    by (simp add: ols_regular [OF nz] ols_intercept_def ols_slope_def)
qed

theorem ols_least_squares_witness:
  "beta_1 (ols [0, 1, 2] [Fin 100, Fin 110, Fin 120]) = Fin 10
    \<and> beta_0 (ols [0, 1, 2] [Fin 100, Fin 110, Fin 120]) = Fin 100
    \<and> ssr 100 10 [(0, 100), (1, 110), (2, 120)] \<le> ssr 90 12 [(0, 100), (1, 110), (2, 120)]"
  using ols_least_squares [of "(0, 100)" "[(0, 100), (1, 110), (2, 120)]" "(1, 110)"]
  by (simp add: sxy_def sxx_def xbar_def ybar_def)

section \<open>A series with one time index\<close>

text \<open>
  C3 (as the script has it). When every row of a non-empty series has the same date, all
  time indices are 0 and the slope is 0/0. The script has no check of this and raises
  nothing: slope, intercept, trend, residuals and their deviation are NaN, and the run
  goes on to its end.
\<close>

theorem degenerate_series_NaN:
  assumes "load_gold dl \<noteq> []" and "\<forall>r\<in>set (load_gold dl). fst r = d" and "1 \<le> pd"
  shows "\<exists>out. run_script neg dl kurs pd = Inr out
    \<and> fit out = ols (df_t out) (df_price_idr out)
    \<and> fit out = \<lparr>beta_0 = NaN, beta_1 = NaN, trend = map (\<lambda>t. NaN) (df_t out),
                 residual = map (\<lambda>t. NaN) (df_t out), noise_std = NaN\<rparr>"
proof -
  let ?df = "load_gold dl"
  let ?pts = "points kurs ?df"
  have ne: "?pts \<noteq> []"
    using assms(1) by (simp add: points_def)
  have "\<forall>p\<in>set ?pts. fst p = d - Min (set (map fst ?df))"
    using assms(2) by (auto simp: points_def)
  then have "sxx ?pts = 0"
    by (rule sxx_const [OF ne])
  then have "ols (t_col (map fst ?df)) (map (\<lambda>r. price_idr kurs (snd r)) ?df) =
     \<lparr>beta_0 = NaN, beta_1 = NaN, trend = map (\<lambda>p. NaN) ?pts,
      residual = map (\<lambda>p. NaN) ?pts, noise_std = NaN\<rparr>"
    by (simp only: ols_points ols_degenerate [OF ne])
  then show ?thesis
    by (simp add: run_script_ok [OF assms(1) assms(3)] Let_def points_def t_col_def o_def)
qed

theorem degenerate_series_NaN_witness:
  "load_gold [(Some 5, Some 100), (Some 5, Some 102)] = [(5, 100), (5, 102)]
    \<and> (\<exists>out. run_script (Inl ValueError) [(Some 5, Some 100), (Some 5, Some 102)] 16000 7
              = Inr out
          \<and> fit out = \<lparr>beta_0 = NaN, beta_1 = NaN, trend = map (\<lambda>t. NaN) (df_t out),
                       residual = map (\<lambda>t. NaN) (df_t out), noise_std = NaN\<rparr>)"
proof -
  let ?dl = "[(Some 5, Some 100), (Some 5, Some 102)] :: (int option \<times> real option) list"
  have l: "load_gold ?dl = [(5, 100), (5, 102)]"
    by (simp add: load_gold_def List.map_filter_def)
  have h1: "load_gold ?dl \<noteq> []" and h2: "\<forall>r\<in>set (load_gold ?dl). fst r = 5"
    by (simp_all add: l)
  have h3: "(1::int) \<le> 7"
    by simp
  from degenerate_series_NaN [OF h1 h2 h3, of "Inl ValueError" 16000] l show ?thesis
    by blast
qed

text \<open>
  The claim as stated, that such a series makes the fit fail with an error, is false on
  two rows of the same day: the run returns a result, with NaN as slope and intercept.
\<close>

theorem identical_time_index_no_error:
  "map_sum id (\<lambda>out. (beta_0 (fit out), beta_1 (fit out)))
     (run_script (Inl ValueError) [(Some 5, Some 100), (Some 5, Some 102)] 16000 7)
   = Inr (NaN, NaN)"
  by (simp add: script_eval)

section \<open>Residuals and their standard deviation\<close>

text \<open>
  C4. On a series of at least two points, every residual is the value minus the trend
  \<open>intercept + slope * x\<close> at its point, and \<open>noise_std\<close> is the sample standard
  deviation of the residuals (squared deviations from their mean, summed, divided by
  \<open>n - 1\<close>, square-rooted). When the time indices are not all equal this is the real
  number the closed form gives.
\<close>

theorem noise_std_sample_std:
  assumes "2 \<le> length pts"
  shows "residual (ols (map fst pts) (map (\<lambda>r. Fin (snd r)) pts))
      = map (\<lambda>r. np_sub (Fin (snd r))
               (np_add (beta_0 (ols (map fst pts) (map (\<lambda>r. Fin (snd r)) pts)))
                 (np_mul (beta_1 (ols (map fst pts) (map (\<lambda>r. Fin (snd r)) pts)))
                   (flt (fst r))))) pts
    \<and> noise_std (ols (map fst pts) (map (\<lambda>r. Fin (snd r)) pts))
      = sample_std (residual (ols (map fst pts) (map (\<lambda>r. Fin (snd r)) pts)))
    \<and> (sxx pts \<noteq> 0 \<longrightarrow>
        residual (ols (map fst pts) (map (\<lambda>r. Fin (snd r)) pts))
          = map (\<lambda>r. Fin (resid pts r)) pts
        \<and> noise_std (ols (map fst pts) (map (\<lambda>r. Fin (snd r)) pts))
          = Fin (sqrt (sum_list (map (\<lambda>r. (resid pts r
                    - sum_list (map (resid pts) pts) / real (length pts))\<^sup>2) pts)
                 / (real (length pts) - 1))))"
proof -
  let ?f = "ols (map fst pts) (map (\<lambda>r. Fin (snd r)) pts)"
  have ne: "pts \<noteq> []"
    using assms by auto
  have res: "residual ?f = map (\<lambda>r. np_sub (Fin (snd r))
      (np_add (beta_0 ?f) (np_mul (beta_1 ?f) (flt (fst r))))) pts"
    by (simp add: ols_def Let_def map2_map_same o_def)
  have std: "noise_std ?f = sample_std (residual ?f)"
  proof (cases "sxx pts = 0")
    case True
    then show ?thesis
      by (simp add: ols_degenerate [OF ne] sample_std_NaN [OF ne])
  next
    case False
    then show ?thesis
      by (simp add: ols_regular series_std_Fin_map [OF assms])
  qed
  have reg: "residual ?f = map (\<lambda>r. Fin (resid pts r)) pts
      \<and> noise_std ?f = Fin (sqrt (sum_list (map (\<lambda>r. (resid pts r
                    - sum_list (map (resid pts) pts) / real (length pts))\<^sup>2) pts)
                 / (real (length pts) - 1)))" if nz: "sxx pts \<noteq> 0"
  proof -
    let ?m = "sum_list (map (resid pts) pts) / real (length pts)"
    let ?S = "sum_list (map (\<lambda>r. (resid pts r - ?m)\<^sup>2) pts)"
    have S: "0 \<le> ?S"
      by (rule sum_list_nonneg) auto
    have n: "0 < real (length pts) - 1"
      using assms by simp
    have q: "\<not> ?S / (real (length pts) - 1) < 0"
      using S n by (simp add: not_less)
    have "noise_std ?f = sample_std (map (\<lambda>r. Fin (resid pts r)) pts)"
      using nz by (simp add: ols_regular series_std_Fin_map [OF assms])
    also have "\<dots> = np_sqrt (Fin (?S / (real (length pts) - 1)))"
      using n ne by (simp add: sample_std_def Let_def np_mean_Fin_map np_sub_Fin o_def
          np_sum_Fin_map power2_eq_square)
    also have "\<dots> = Fin (sqrt (?S / (real (length pts) - 1)))"
      using q by simp
    finally show ?thesis
      using nz by (simp add: ols_regular)
  qed
  from res std reg show ?thesis
    by blast
qed

theorem noise_std_sample_std_witness:
  "2 \<le> length [(0::int, 0::real), (1, 3), (2, 0)]
   \<and> sxx [(0, 0), (1, 3), (2, 0)] = 2
   \<and> residual (ols [0, 1, 2] [Fin 0, Fin 3, Fin 0]) = [Fin (- 1), Fin 2, Fin (- 1)]
   \<and> noise_std (ols [0, 1, 2] [Fin 0, Fin 3, Fin 0]) = Fin (sqrt 3)"
proof -
  have h: "2 \<le> length [(0::int, 0::real), (1, 3), (2, 0)]"
    by simp
  have s: "sxx [(0, 0), (1, 3), (2, 0)] = 2"
    by (simp add: sxx_def xbar_def)
  from noise_std_sample_std [OF h, THEN conjunct2, THEN conjunct2] s h show ?thesis
    by (simp add: resid_def ols_intercept_def ols_slope_def sxy_def sxx_def xbar_def ybar_def)
qed

section \<open>The forecast\<close>

text \<open>
  C5. On a non-empty series and a horizon of at least one day, the forecast has exactly
  \<open>pred_days\<close> rows; its dates are the consecutive days that start the day after the
  last date of the series; its k-th trend value is \<open>beta_0 + beta_1 * (x[-1] + k)\<close> for
  k from 1 to \<open>pred_days\<close>. A horizon of one day gives the single row dated the next
  day.
\<close>

theorem future_df_forecast:
  assumes "x \<noteq> []" and "ds \<noteq> []" and "1 \<le> pred_days"
  shows "\<exists>fdf. future_df neg_periods ds x b0 b1 pred_days = Inr fdf
    \<and> int (length fdf) = pred_days
    \<and> map fst fdf = map (\<lambda>k. last ds + k) [1..pred_days]
    \<and> map snd fdf = map (\<lambda>k. np_add b0 (np_mul b1 (flt (last x + k)))) [1..pred_days]
    \<and> (pred_days = 1 \<longrightarrow>
         fdf = [(last ds + 1, np_add b0 (np_mul b1 (flt (last x + 1))))])"
proof -
  let ?dates = "[last ds + 1..last ds + pred_days]"
  let ?fy = "future_y b0 b1 [last x + 1..last x + pred_days]"
  have eq: "future_df neg_periods ds x b0 b1 pred_days = Inr (zip ?dates ?fy)"
    using assms by (simp add: future_df_ok)
  have len: "length ?dates = length ?fy"
    by (simp add: future_y_def)
  have n: "int (length (zip ?dates ?fy)) = pred_days"
    using assms(3) by (simp add: future_y_def)
  have d: "map fst (zip ?dates ?fy) = map (\<lambda>k. last ds + k) [1..pred_days]"
    using len by (simp only: map_fst_zip upto_shift)
  have v: "map snd (zip ?dates ?fy)
      = map (\<lambda>k. np_add b0 (np_mul b1 (flt (last x + k)))) [1..pred_days]"
    using len by (simp only: map_snd_zip) (simp add: future_y_def upto_shift o_def)
  have one: "zip ?dates ?fy = [(last ds + 1, np_add b0 (np_mul b1 (flt (last x + 1))))]"
    if "pred_days = 1"
    using that by (simp add: future_y_def)
  from eq n d v one show ?thesis
    by blast
qed

theorem future_df_forecast_witness:
  "future_df (Inl ValueError) [10, 11, 14] [0, 1, 4] (Fin 100) (Fin 10) 2
     = Inr [(15, Fin 150), (16, Fin 160)]
   \<and> future_df (Inl ValueError) [10, 11, 14] [0, 1, 4] (Fin 100) (Fin 10) 1
     = Inr [(15, Fin 150)]"
proof -
  have h1: "[0, 1, 4] \<noteq> ([] :: int list)" and h2: "[10, 11, 14] \<noteq> ([] :: int list)"
    by simp_all
  have h3: "(1::int) \<le> 1"
    by simp
  from future_df_forecast [OF h1 h2 h3, of "Inl ValueError" "Fin 100" "Fin 10"]
  have "future_df (Inl ValueError) [10, 11, 14] [0, 1, 4] (Fin 100) (Fin 10) 1
     = Inr [(15, Fin 150)]"
    by (auto simp: flt_def)
  moreover have "future_df (Inl ValueError) [10, 11, 14] [0, 1, 4] (Fin 100) (Fin 10) 2
     = Inr [(15, Fin 150), (16, Fin 160)]"
    by (simp add: script_eval)
  ultimately show ?thesis
    by simp
qed

section \<open>A horizon below one day\<close>

text \<open>
  C6 (as the script has it). The script validates no horizon. For any horizon below 1 the
  array of future time indices is empty; at horizon 0 the forecast section returns the
  empty table without an error, and the run then stops with IndexError at line 149, where
  the last forecast value is read; no run with a horizon below 1 reaches its end.
\<close>

theorem non_positive_horizon:
  assumes "pred_days < 1"
  shows "arange (x_last + 1) (x_last + pred_days + 1) = []
    \<and> (pred_days = 0 \<and> x \<noteq> [] \<and> ds \<noteq> [] \<longrightarrow> future_df neg_periods ds x b0 b1 pred_days = Inr [])
    \<and> (\<exists>e. run_script neg_periods dl kurs pred_days = Inl e)
    \<and> (pred_days = 0 \<longrightarrow> run_script neg_periods dl kurs pred_days = Inl IndexError)"
proof -
  have a: "arange (x_last + 1) (x_last + pred_days + 1) = []"
    using assms by (simp add: arange_def)
  have b: "future_df neg_periods ds x b0 b1 pred_days = Inr []"
    if "pred_days = 0 \<and> x \<noteq> [] \<and> ds \<noteq> []"
    using that by (simp add: future_df_ok future_y_def)
  have c: "\<exists>e. run_script neg_periods dl kurs pred_days = Inl e"
    using assms by (rule run_script_nonpos)
  have d: "run_script neg_periods dl kurs pred_days = Inl IndexError" if z: "pred_days = 0"
  proof (cases "load_gold dl = []")
    case True
    then show ?thesis by (rule run_script_empty)
  next
    case False
    then have "future_df neg_periods (map fst (load_gold dl)) (t_col (map fst (load_gold dl)))
        b0' b1' 0 = Inr []" for b0' b1'
      by (simp add: future_df_ok future_y_def t_col_def)
    with False z show ?thesis
      by (simp add: run_script_def Let_def iloc_last_ne summarize_empty)
  qed
  from a b c d show ?thesis
    by blast
qed

theorem non_positive_horizon_witness:
  "(0::int) < 1
    \<and> arange (4 + 1) (4 + 0 + 1) = []
    \<and> future_df (Inl ValueError) [10, 11, 14] [0, 1, 4] (Fin 100) (Fin 10) 0 = Inr []
    \<and> run_script (Inl ValueError) [(Some 0, Some 100), (Some 1, Some 110)] 16000 0
        = Inl IndexError"
  using non_positive_horizon [of 0 4 "[0, 1, 4]" "[10, 11, 14]" "Inl ValueError" "Fin 100"
      "Fin 10" "[(Some 0, Some 100), (Some 1, Some 110)]" 16000]
  by simp

text \<open>
  The claim as stated, that the forecast section fails on a horizon below 1, is false at
  horizon 0: the section returns the empty forecast.
\<close>

theorem zero_horizon_empty_forecast:
  "future_df (Inl ValueError) [10, 11, 14] [0, 1, 4] (Fin 100) (Fin 10) 0 = Inr []"
  by (simp add: script_eval)

section \<open>The percentage change\<close>

text \<open>
  C7 (as the script has it). In a run on a non-empty series with a horizon of at least one
  day, the current value is the last value of the series, the forecast value is the trend
  of the last forecast row, and \<open>change_pct\<close> is
  \<open>(future_price - current_idr) / current_idr * 100\<close>: the real number of that formula
  when the current value is not zero. A current value of zero raises nothing: the
  division yields NaN when the forecast value is zero too, and an infinity of the sign
  of the forecast value otherwise.
\<close>

theorem change_pct_formula:
  assumes "load_gold dl \<noteq> []" and "1 \<le> pd"
  shows "\<exists>out. run_script neg dl kurs pd = Inr out
    \<and> current_idr out = last (df_price_idr out)
    \<and> future_price (summ out) = snd (last (forecast out))
    \<and> change_pct (summ out)
        = np_mul (np_div (np_sub (future_price (summ out)) (current_idr out)) (current_idr out))
            (Fin 100)
    \<and> (\<forall>f c. future_price (summ out) = Fin f \<and> current_idr out = Fin c \<and> c \<noteq> 0
          \<longrightarrow> change_pct (summ out) = Fin ((f - c) / c * 100))
    \<and> (\<forall>f. future_price (summ out) = Fin f \<and> current_idr out = Fin 0
          \<longrightarrow> change_pct (summ out) = (if f = 0 then NaN else if 0 < f then PInf else NInf))"
proof -
  let ?df = "load_gold dl"
  let ?ds = "map fst ?df"
  let ?y = "map (\<lambda>r. price_idr kurs (snd r)) ?df"
  let ?x = "t_col ?ds"
  let ?f = "ols ?x ?y"
  let ?fy = "future_y (beta_0 ?f) (beta_1 ?f) [last ?x + 1..last ?x + pd]"
  let ?dates = "[last ?ds + 1..last ?ds + pd]"
  have len: "length ?dates = length ?fy"
    by (simp add: future_y_def)
  have fy: "?fy \<noteq> []"
    using assms(2) by (simp add: future_y_def)
  have "last ?fy = last (map snd (zip ?dates ?fy))"
    using len by (simp only: map_snd_zip)
  also have "\<dots> = snd (last (zip ?dates ?fy))"
    using fy len by (intro last_map) auto
  finally have fp: "last ?fy = snd (last (zip ?dates ?fy))" .
  show ?thesis
    unfolding run_script_ok [OF assms] Let_def
    by (simp add: fp np_sub_Fin signed_inf_def)
qed

theorem change_pct_formula_witness:
  "load_gold [(Some 0, Some 10), (Some 1, Some 0)] \<noteq> []
    \<and> (\<exists>out. run_script (Inl ValueError) [(Some 0, Some 10), (Some 1, Some 0)] 31.1035 7
               = Inr out
          \<and> current_idr out = Fin 0 \<and> future_price (summ out) = Fin (- 70)
          \<and> change_pct (summ out) = NInf)"
proof -
  let ?dl = "[(Some 0, Some 10), (Some 1, Some 0)] :: (int option \<times> real option) list"
  have h1: "load_gold ?dl \<noteq> []"
    by (simp add: load_gold_def List.map_filter_def)
  have h2: "(1::int) \<le> 7"
    by simp
  have ev: "run_script (Inl ValueError) ?dl 31.1035 7 = Inr out
      \<Longrightarrow> current_idr out = Fin 0 \<and> future_price (summ out) = Fin (- 70)" for out
    by (auto simp: script_eval)
  from change_pct_formula [OF h1 h2, of "Inl ValueError" "31.1035"] ev h1 show ?thesis
    by fastforce
qed

text \<open>
  The claim as stated, that a current value of zero makes the summary fail, is false on
  a series that ends at price 0: the run returns a summary whose change is minus infinity.
\<close>

theorem zero_current_no_error:
  "map_sum id (\<lambda>out. (current_idr out, future_price (summ out), change_pct (summ out)))
     (run_script (Inl ValueError) [(Some 0, Some 10), (Some 1, Some 0)] 31.1035 7)
   = Inr (Fin 0, Fin (- 70), NInf)"
  by (simp add: script_eval)

section \<open>The direction of the trend\<close>

text \<open>
  C8. In every run that reaches its end, the status is "Tren Naik" exactly when
  \<open>change_pct > 0\<close> and "Tren Turun / Stabil" otherwise: a finite change \<open>v\<close> gives
  "Tren Naik" exactly when \<open>0 < v\<close>, and a change of exactly 0, like a change that is
  NaN, gives "Tren Turun / Stabil". In terms of the two values the change is computed
  from: with a positive current value the status is "Tren Naik" exactly when the
  forecast value is above it, and a forecast value equal to a current value that is not
  zero, which is what a flat series gives when its mean is computed without rounding
  error, makes the change 0 and the status "Tren Turun / Stabil".
\<close>

theorem trend_status_threshold:
  assumes "run_script neg dl kurs pd = Inr out"
  shows "(status (summ out) = TrenNaik \<longleftrightarrow> np_gt (change_pct (summ out)) (Fin 0))
    \<and> (status (summ out) = TrenTurunStabil \<longleftrightarrow> \<not> np_gt (change_pct (summ out)) (Fin 0))
    \<and> (\<forall>v. change_pct (summ out) = Fin v \<longrightarrow>
          (status (summ out) = TrenNaik \<longleftrightarrow> 0 < v)
          \<and> (status (summ out) = TrenTurunStabil \<longleftrightarrow> v \<le> 0))
    \<and> (change_pct (summ out) = Fin 0 \<longrightarrow> status (summ out) = TrenTurunStabil)
    \<and> (change_pct (summ out) = NaN \<longrightarrow> status (summ out) = TrenTurunStabil)
    \<and> (\<forall>f c. future_price (summ out) = Fin f \<and> current_idr out = Fin c \<and> 0 < c \<longrightarrow>
          (status (summ out) = TrenNaik \<longleftrightarrow> c < f)
          \<and> (status (summ out) = TrenTurunStabil \<longleftrightarrow> f \<le> c))
    \<and> (\<forall>c. future_price (summ out) = Fin c \<and> current_idr out = Fin c \<and> c \<noteq> 0 \<longrightarrow>
          change_pct (summ out) = Fin 0 \<and> status (summ out) = TrenTurunStabil)"
proof -
  let ?df = "load_gold dl"
  let ?ds = "map fst ?df"
  let ?y = "map (\<lambda>r. price_idr kurs (snd r)) ?df"
  let ?x = "t_col ?ds"
  let ?f = "ols ?x ?y"
  let ?fy = "future_y (beta_0 ?f) (beta_1 ?f) [last ?x + 1..last ?x + pd]"
  let ?pct = "np_mul (np_div (np_sub (last ?fy) (last ?y)) (last ?y)) (Fin 100)"
  from assms have ne: "?df \<noteq> []" and pd: "1 \<le> pd"
    using run_script_InrD by blast+
  from assms have out: "future_price (summ out) = last ?fy" "current_idr out = last ?y"
    "change_pct (summ out) = ?pct"
    "status (summ out) = (if np_gt ?pct (Fin 0) then TrenNaik else TrenTurunStabil)"
    unfolding run_script_ok [OF ne pd] Let_def by auto
  have pct: "change_pct (summ out)
      = np_mul (np_div (np_sub (future_price (summ out)) (current_idr out)) (current_idr out))
          (Fin 100)"
    by (simp only: out)
  have st: "status (summ out)
      = (if np_gt (change_pct (summ out)) (Fin 0) then TrenNaik else TrenTurunStabil)"
    by (simp only: out)
  have a: "status (summ out) = TrenNaik \<longleftrightarrow> np_gt (change_pct (summ out)) (Fin 0)"
    and b: "status (summ out) = TrenTurunStabil \<longleftrightarrow> \<not> np_gt (change_pct (summ out)) (Fin 0)"
    by (simp_all add: st)
  have c: "(status (summ out) = TrenNaik \<longleftrightarrow> 0 < v)
      \<and> (status (summ out) = TrenTurunStabil \<longleftrightarrow> v \<le> 0)"
    if "change_pct (summ out) = Fin v" for v
    using that by (auto simp: a b)
  have d: "status (summ out) = TrenTurunStabil" if "change_pct (summ out) = Fin 0"
    using that by (simp add: b)
  have e: "status (summ out) = TrenTurunStabil" if "change_pct (summ out) = NaN"
    using that by (simp add: b)
  have f: "(status (summ out) = TrenNaik \<longleftrightarrow> c < f)
      \<and> (status (summ out) = TrenTurunStabil \<longleftrightarrow> f \<le> c)"
    if h: "future_price (summ out) = Fin f \<and> current_idr out = Fin c \<and> 0 < c" for f c
  proof -
    from h have "change_pct (summ out) = Fin ((f - c) / c * 100)"
      by (simp add: pct np_sub_Fin)
    moreover from h have "0 < (f - c) / c * 100 \<longleftrightarrow> c < f"
      by (simp add: zero_less_mult_iff zero_less_divide_iff)
    ultimately show ?thesis
      using c [of "(f - c) / c * 100"] by auto
  qed
  have g: "change_pct (summ out) = Fin 0 \<and> status (summ out) = TrenTurunStabil"
    if h: "future_price (summ out) = Fin c \<and> current_idr out = Fin c \<and> c \<noteq> 0" for c
  proof -
    from h have "change_pct (summ out) = Fin 0"
      by (simp add: pct np_sub_Fin)
    then show ?thesis
      using d by simp
  qed
  from a b c d e f g show ?thesis
    by blast
qed

theorem trend_status_threshold_witness:
  "(\<exists>out. run_script (Inl ValueError) [(Some 0, Some 100), (Some 1, Some 110), (Some 2, Some 120)]
            31.1035 7 = Inr out
      \<and> current_idr out = Fin 120 \<and> future_price (summ out) = Fin 190
      \<and> status (summ out) = TrenNaik)
    \<and> (\<exists>out. run_script (Inl ValueError)
            [(Some 0, Some 120), (Some 1, Some 110), (Some 2, Some 100)] 31.1035 7 = Inr out
      \<and> current_idr out = Fin 100 \<and> future_price (summ out) = Fin 30
      \<and> status (summ out) = TrenTurunStabil)
    \<and> (\<exists>out. run_script (Inl ValueError)
            [(Some 0, Some 100), (Some 1, Some 100), (Some 2, Some 100)] 31.1035 7 = Inr out
      \<and> current_idr out = Fin 100 \<and> future_price (summ out) = Fin 100
      \<and> change_pct (summ out) = Fin 0 \<and> status (summ out) = TrenTurunStabil)"
proof -
  let ?up = "[(Some 0, Some 100), (Some 1, Some 110), (Some 2, Some 120)]
      :: (int option \<times> real option) list"
  let ?down = "[(Some 0, Some 120), (Some 1, Some 110), (Some 2, Some 100)]
      :: (int option \<times> real option) list"
  let ?flat = "[(Some 0, Some 100), (Some 1, Some 100), (Some 2, Some 100)]
      :: (int option \<times> real option) list"
  have h2: "(1::int) \<le> 7"
    by simp
  have ne: "load_gold ?up \<noteq> []" "load_gold ?down \<noteq> []" "load_gold ?flat \<noteq> []"
    by (simp_all add: load_gold_def List.map_filter_def)
  have "\<exists>out. run_script (Inl ValueError) ?up 31.1035 7 = Inr out"
    unfolding run_script_ok [OF ne(1) h2] Let_def by blast
  then obtain u where u: "run_script (Inl ValueError) ?up 31.1035 7 = Inr u" ..
  have "\<exists>out. run_script (Inl ValueError) ?down 31.1035 7 = Inr out"
    unfolding run_script_ok [OF ne(2) h2] Let_def by blast
  then obtain d where d: "run_script (Inl ValueError) ?down 31.1035 7 = Inr d" ..
  have "\<exists>out. run_script (Inl ValueError) ?flat 31.1035 7 = Inr out"
    unfolding run_script_ok [OF ne(3) h2] Let_def by blast
  then obtain e where e: "run_script (Inl ValueError) ?flat 31.1035 7 = Inr e" ..
  have uv: "current_idr u = Fin 120 \<and> future_price (summ u) = Fin 190"
    using u by (auto simp: script_eval)
  have dv: "current_idr d = Fin 100 \<and> future_price (summ d) = Fin 30"
    using d by (auto simp: script_eval)
  have ev: "current_idr e = Fin 100 \<and> future_price (summ e) = Fin 100"
    using e by (auto simp: script_eval)
  from trend_status_threshold [OF u] uv have "status (summ u) = TrenNaik"
    by force
  with u uv have 1: "\<exists>out. run_script (Inl ValueError) ?up 31.1035 7 = Inr out
      \<and> current_idr out = Fin 120 \<and> future_price (summ out) = Fin 190
      \<and> status (summ out) = TrenNaik"
    by blast
  from trend_status_threshold [OF d] dv have "status (summ d) = TrenTurunStabil"
    by force
  with d dv have 2: "\<exists>out. run_script (Inl ValueError) ?down 31.1035 7 = Inr out
      \<and> current_idr out = Fin 100 \<and> future_price (summ out) = Fin 30
      \<and> status (summ out) = TrenTurunStabil"
    by blast
  from trend_status_threshold [OF e] ev
  have "change_pct (summ e) = Fin 0 \<and> status (summ e) = TrenTurunStabil"
    by force
  with e ev have 3: "\<exists>out. run_script (Inl ValueError) ?flat 31.1035 7 = Inr out
      \<and> current_idr out = Fin 100 \<and> future_price (summ out) = Fin 100
      \<and> change_pct (summ out) = Fin 0 \<and> status (summ out) = TrenTurunStabil"
    by blast
  from 1 2 3 show ?thesis
    by blast
qed

section \<open>The time axis\<close>

text \<open>
  C9 (as the script has it). The time index of a row is the number of days from the
  earliest date of the series to its own date: never negative, and 0 at the earliest
  date. When the dates come in non-decreasing order, the index starts at 0 and is
  non-decreasing. The script neither sorts the rows nor fills missing days: two rows are
  as many index steps apart as their dates are days apart.
\<close>

theorem t_col_days_since_first:
  assumes "ds \<noteq> []"
  shows "length (t_col ds) = length ds
    \<and> (\<forall>i<length ds. t_col ds ! i = ds ! i - Min (set ds))
    \<and> (\<forall>t\<in>set (t_col ds). 0 \<le> t)
    \<and> 0 \<in> set (t_col ds)
    \<and> (sorted ds \<longrightarrow> hd (t_col ds) = 0 \<and> sorted (t_col ds))
    \<and> (\<forall>i j. i < length ds \<and> j < length ds \<longrightarrow> t_col ds ! j - t_col ds ! i = ds ! j - ds ! i)"
proof -
  have fin: "finite (set ds)" and ne: "set ds \<noteq> {}"
    using assms by simp_all
  have a: "length (t_col ds) = length ds"
    by (simp add: t_col_def)
  have b: "\<forall>i<length ds. t_col ds ! i = ds ! i - Min (set ds)"
    by (simp add: t_col_def)
  have c: "\<forall>t\<in>set (t_col ds). 0 \<le> t"
    using fin by (auto simp: t_col_def)
  have "Min (set ds) \<in> set ds"
    using fin ne by (rule Min_in)
  then have "Min (set ds) - Min (set ds) \<in> set (t_col ds)"
    unfolding t_col_def set_map by (rule imageI)
  then have d: "0 \<in> set (t_col ds)"
    by simp
  have e: "hd (t_col ds) = 0 \<and> sorted (t_col ds)" if s: "sorted ds"
  proof -
    have "hd (t_col ds) = hd ds - Min (set ds)"
      using assms by (simp add: t_col_def hd_map)
    then have "hd (t_col ds) = 0"
      by (simp add: sorted_Min_hd [OF s assms])
    moreover have "sorted (t_col ds)"
      using s by (simp add: t_col_def sorted_map)
    ultimately show ?thesis
      by simp
  qed
  have f: "\<forall>i j. i < length ds \<and> j < length ds \<longrightarrow> t_col ds ! j - t_col ds ! i = ds ! j - ds ! i"
    by (simp add: t_col_def)
  from a b c d e f show ?thesis
    by blast
qed

theorem t_col_days_since_first_witness:
  "[3, 6, 7] \<noteq> ([] :: int list) \<and> sorted [3, 6, 7 :: int]
    \<and> t_col [3, 6, 7] = [0, 3, 4] \<and> hd (t_col [3, 6, 7]) = 0 \<and> sorted (t_col [3, 6, 7])
    \<and> t_col [3, 6, 7] ! 1 - t_col [3, 6, 7] ! 0 = 3"
proof -
  have h: "[3, 6, 7] \<noteq> ([] :: int list)" and s: "sorted [3, 6, 7 :: int]"
    by simp_all
  have v: "t_col [3, 6, 7] = [0, 3, 4]"
    by (simp add: t_col_def)
  from t_col_days_since_first [OF h] s
  have "hd (t_col [3, 6, 7]) = 0 \<and> sorted (t_col [3, 6, 7])"
    by blast
  moreover from t_col_days_since_first [OF h]
  have "t_col [3, 6, 7] ! 1 - t_col [3, 6, 7] ! 0 = [3, 6, 7] ! 1 - [3, 6, 7] ! 0"
    by simp
  ultimately show ?thesis
    using h s v by simp
qed

text \<open>
  The claim as stated, that consecutive points are one day apart, is false on a Friday
  followed by a Monday: the indices are 0 and 3.
\<close>

theorem t_col_keeps_gaps:
  "t_col (map fst (load_gold [(Some 3, Some 100), (Some 6, Some 101)])) = [0, 3]
    \<and> \<not> day_apart (t_col (map fst (load_gold [(Some 3, Some 100), (Some 6, Some 101)])))"
  by (simp add: t_col_def load_gold_def List.map_filter_def)

section \<open>The horizon of the application\<close>

text \<open>
  C10. The horizon is the value of a slider that goes from 7 to 180 and starts at 30. Such
  a value is at least 1, so the array of future time indices is never empty, the run
  never depends on what pandas does with a negative number of periods, and on a non-empty
  series the run returns a forecast of \<open>pred_days\<close> rows.
\<close>

theorem slider_horizon_positive:
  assumes "slider_value pred_days"
  shows "7 \<le> pred_days \<and> pred_days \<le> 180 \<and> 1 \<le> pred_days
    \<and> pred_days_default = 30 \<and> slider_value pred_days_default
    \<and> arange (x_last + 1) (x_last + pred_days + 1) \<noteq> []
    \<and> run_script neg_periods dl kurs pred_days = run_script neg_periods' dl kurs pred_days
    \<and> (load_gold dl \<noteq> [] \<longrightarrow>
         (\<exists>out. run_script neg_periods dl kurs pred_days = Inr out
            \<and> int (length (forecast out)) = pred_days))"
proof -
  from assms have r: "7 \<le> pred_days" "pred_days \<le> 180"
    by (simp_all add: slider_value_def pred_days_min_def pred_days_max_def)
  then have p: "1 \<le> pred_days"
    by simp
  have d: "pred_days_default = 30 \<and> slider_value pred_days_default"
    by (simp add: slider_value_def pred_days_min_def pred_days_max_def pred_days_default_def)
  have a: "arange (x_last + 1) (x_last + pred_days + 1) \<noteq> []"
    using p by (simp add: arange_def)
  have i: "run_script neg_periods dl kurs pred_days = run_script neg_periods' dl kurs pred_days"
  proof (cases "load_gold dl = []")
    case True
    then show ?thesis
      by (simp add: run_script_empty)
  next
    case False
    then show ?thesis
      by (simp only: run_script_ok [OF False p])
  qed
  have s: "\<exists>out. run_script neg_periods dl kurs pred_days = Inr out
      \<and> int (length (forecast out)) = pred_days" if ne: "load_gold dl \<noteq> []"
    unfolding run_script_ok [OF ne p] Let_def using p by (simp add: future_y_def)
  from r p d a i s show ?thesis
    by blast
qed

theorem slider_horizon_positive_witness:
  "slider_value 30 \<and> (1::int) \<le> 30
    \<and> load_gold [(Some 0, Some 100), (Some 1, Some 110)] \<noteq> []
    \<and> (\<exists>out. run_script (Inl ValueError) [(Some 0, Some 100), (Some 1, Some 110)] 16000 30
              = Inr out \<and> int (length (forecast out)) = 30)"
proof -
  have h: "slider_value 30"
    by (simp add: slider_value_def pred_days_min_def pred_days_max_def)
  have l: "load_gold [(Some 0, Some 100), (Some 1, Some 110)] \<noteq> []"
    by (simp add: load_gold_def List.map_filter_def)
  from slider_horizon_positive [OF h, of 0 "Inl ValueError"
      "[(Some 0, Some 100), (Some 1, Some 110)]" 16000 "Inl ValueError"] h l
  show ?thesis
    by blast
qed

section \<open>Rows with missing values\<close>

text \<open>
  C2 (as the script has it). The rows with a missing date or price are dropped, in order,
  before anything else. The script asks for no minimum number of rows: only when no row
  is left does the run stop, with IndexError where the current price is read (line 103);
  with one row or more, so with exactly one and with exactly two, and a horizon of at
  least one day, it returns a result on the rows that are left.
\<close>

theorem load_gold_no_minimum:
  "map (\<lambda>r. (Some (fst r), Some (snd r))) (load_gold dl)
      = filter (\<lambda>r. fst r \<noteq> None \<and> snd r \<noteq> None) dl
    \<and> (load_gold dl = [] \<longrightarrow> run_script neg dl kurs pd = Inl IndexError)
    \<and> (load_gold dl \<noteq> [] \<and> 1 \<le> pd \<longrightarrow>
         (\<exists>out. run_script neg dl kurs pd = Inr out
            \<and> df_ds out = map fst (load_gold dl)
            \<and> df_price_idr out = map (\<lambda>r. Fin (snd r * kurs / 31.1035)) (load_gold dl)))"
proof -
  have a: "map (\<lambda>r. (Some (fst r), Some (snd r))) (load_gold dl)
      = filter (\<lambda>r. fst r \<noteq> None \<and> snd r \<noteq> None) dl"
    by (induction dl) (auto simp: load_gold_def List.map_filter_def split: option.splits)
  have b: "run_script neg dl kurs pd = Inl IndexError" if "load_gold dl = []"
    using that by (rule run_script_empty)
  have c: "\<exists>out. run_script neg dl kurs pd = Inr out
      \<and> df_ds out = map fst (load_gold dl)
      \<and> df_price_idr out = map (\<lambda>r. Fin (snd r * kurs / 31.1035)) (load_gold dl)"
    if h: "load_gold dl \<noteq> [] \<and> 1 \<le> pd"
  proof -
    from h have ne: "load_gold dl \<noteq> []" and p: "1 \<le> pd"
      by simp_all
    show ?thesis
      unfolding run_script_ok [OF ne p] Let_def by (simp add: price_idr_def)
  qed
  from a b c show ?thesis
    by blast
qed

theorem load_gold_no_minimum_witness:
  "load_gold [(Some 0, Some 100), (Some 1, None)] = [(0, 100)]
    \<and> (\<exists>out. run_script (Inl ValueError) [(Some 0, Some 100), (Some 1, None)] 31.1035 7 = Inr out
          \<and> df_ds out = [0] \<and> df_price_idr out = [Fin 100])
    \<and> run_script (Inl ValueError) [(Some 0, None)] 31.1035 7 = Inl IndexError"
proof -
  let ?dl = "[(Some 0, Some 100), (Some 1, None)] :: (int option \<times> real option) list"
  have l: "load_gold ?dl = [(0, 100)]"
    by (simp add: load_gold_def List.map_filter_def)
  have e: "load_gold [(Some 0, None)] = []"
    by (simp add: load_gold_def List.map_filter_def)
  have h: "load_gold ?dl \<noteq> [] \<and> (1::int) \<le> 7"
    by (simp add: l)
  from load_gold_no_minimum [of ?dl "Inl ValueError" "31.1035" 7] h
  have "\<exists>out. run_script (Inl ValueError) ?dl 31.1035 7 = Inr out
      \<and> df_ds out = map fst (load_gold ?dl)
      \<and> df_price_idr out = map (\<lambda>r. Fin (snd r * 31.1035 / 31.1035)) (load_gold ?dl)"
    by blast
  then have "\<exists>out. run_script (Inl ValueError) ?dl 31.1035 7 = Inr out
      \<and> df_ds out = [0] \<and> df_price_idr out = [Fin 100]"
    by (simp add: l)
  moreover from load_gold_no_minimum [of "[(Some 0, None)]" "Inl ValueError" "31.1035" 7] e
  have "run_script (Inl ValueError) [(Some 0, None)] 31.1035 7 = Inl IndexError"
    by blast
  ultimately show ?thesis
    using l by blast
qed

text \<open>
  The claim as stated, that one valid point makes the normalisation fail, is false on a
  download of one valid row and one row without a price: the run returns a series of
  one point.
\<close>

theorem one_valid_point_no_error:
  "map_sum id (\<lambda>out. (df_ds out, df_price_idr out, df_t out))
     (run_script (Inl ValueError) [(Some 0, Some 100), (Some 1, None)] 31.1035 7)
   = Inr ([0], [Fin 100], [0])"
  by (simp add: script_eval)

end
